theory Spec2Isabelle
  imports Main "HOL-Library.AList"
begin

section \<open>The kube HTTP handler (pkg/kube/handler.go)\<close>

text \<open>
  The handler is a thin layer over collaborators that live in other packages: the kube
  service, the account service, the node provisioner, the task repository and the
  workflow engine. Each collaborator is a field of the handler (as in the Go struct) or a
  member of the record of imported functions; it reads or transforms an abstract store
  state \<open>'s\<close>. What the handler itself does - its control flow, the calls it issues, the
  response it writes and the goroutine it leaves behind - is translated from the source.
\<close>

subsection \<open>Errors\<close>

text \<open>
  \<open>ErrNotFound\<close> is the sentinel \<open>sgerrors.ErrNotFound\<close>; \<open>Wrap err msg\<close> is
  \<open>errors.Wrap(err, msg)\<close> of github.com/pkg/errors, which keeps the cause.
\<close>

datatype error = ErrNotFound | ErrOther string | Wrap error string

text \<open>
  Modelled from the spec: \<open>sgerrors.IsNotFound\<close> (pkg/sgerrors) is not part of the
  sources at hand. Section 7 of the specification names NotFound as one kind of
  the error taxonomy; an error is of that kind when its cause is the sentinel.
\<close>

fun IsNotFound :: "error \<Rightarrow> bool" where
  "IsNotFound ErrNotFound = True"
| "IsNotFound (ErrOther _) = False"
| "IsNotFound (Wrap err _) = IsNotFound err"

subsection \<open>Data\<close>

type_synonym raw = string
type_synonym WriteCloser = string
type_synonym NodeProfile = "(string \<times> string) list"

record node =
  Name :: string

record networking =
  Type :: string
  CIDR :: string
  Version :: string

text \<open>
  \<open>model.Kube\<close>, with the fields this file reads. The two Go maps are association
  lists read with \<open>map_of\<close>: a key is present when \<open>map_of\<close> finds it, \<open>len\<close> is
  zero when the list is empty, and \<open>delete\<close> removes every pair of the key.
\<close>

record kube =
  Name :: string
  AccountName :: string
  Region :: string
  Arch :: string
  OperatingSystem :: string
  OperatingSystemVersion :: string
  DockerVersion :: string
  K8SVersion :: string
  HelmVersion :: string
  Networking :: networking
  RBACEnabled :: bool
  Masters :: "(string \<times> node) list"
  Nodes :: "(string \<times> node) list"

record CloudAccount =
  Name :: string
  Provider :: string

record Profile =
  Provider :: string
  Region :: string
  Arch :: string
  OperatingSystem :: string
  UbuntuVersion :: string
  DockerVersion :: string
  K8SVersion :: string
  HelmVersion :: string
  NetworkType :: string
  CIDR :: string
  FlannelVersion :: string
  NodesProfiles :: "NodeProfile list"
  RBACEnabled :: bool

text \<open>
  \<open>steps.Config\<close>: the fields this file sets, and \<open>Rest\<close> for everything else the
  struct holds (credentials, profile, master address), which only the imported
  functions write.
\<close>

record config =
  ClusterName :: string
  CloudAccountName :: string
  Node :: node
  Rest :: "string list"

record StepStatus =
  StepName :: string
  Status :: string
  ErrMsg :: string

text \<open>\<open>workflows.Task\<close>; \<open>Config\<close> is a pointer in Go and may be nil.\<close>

record task =
  ID :: string
  Type :: string
  Status :: string
  StepStatuses :: "StepStatus list"
  Config :: "config option"

record WorkflowSet =
  DeleteCluster :: string
  DeleteNode :: string

record taskDTO =
  ID :: string
  Type :: string
  Status :: string
  StepStatuses :: "StepStatus list"

subsection \<open>Effects\<close>

datatype arg = S string | E error

datatype logent = Errorf string "arg list" | Warnf string "arg list" | Infof string "arg list"

datatype call =
    SvcCreate kube
  | SvcDelete string
  | RepoPut string raw
  | RepoDelete string
  | TaskRun task config WriteCloser
  | ProvisionNodes "NodeProfile list" kube config

text \<open>
  The world: the abstract state behind the collaborators, the calls that change
  something (in the order issued), and the log.
\<close>

record 's world =
  store :: 's
  calls :: "call list"
  logs :: "logent list"

datatype json = JStrings "string list" | JTasks "taskDTO list"

datatype body = Str string | ErrorText error

text \<open>
  What a handler does to its \<open>http.ResponseWriter\<close>, in order. The two \<open>Send\<close>
  events are helpers of pkg/message, which is not part of the sources at hand.
\<close>

datatype wevent =
    WriteHeader nat
  | Write body
  | Encoded json
  | SendNotFound string error
  | SendUnknownError error

definition StatusBadRequest :: nat where "StatusBadRequest = 400"
definition StatusNotFound :: nat where "StatusNotFound = 404"
definition StatusMethodNotAllowed :: nat where "StatusMethodNotAllowed = 405"
definition StatusInternalServerError :: nat where "StatusInternalServerError = 500"
definition StatusAccepted :: nat where "StatusAccepted = 202"

text \<open>\<open>http.Error\<close> writes the status line and then the message (the line end it
  appends is left out); \<open>http.NotFound\<close> is
  \<open>http.Error(w, "404 page not found", StatusNotFound)\<close>.\<close>

definition http_Error :: "body \<Rightarrow> nat \<Rightarrow> wevent list" where
  "http_Error msg code = [WriteHeader code, Write msg]"

definition http_NotFound :: "wevent list" where
  "http_NotFound = http_Error (Str ''404 page not found'') StatusNotFound"

text \<open>The status the client sees: the first \<open>WriteHeader\<close> wins, a body written
  before any header implies 200, and the helpers of pkg/message are opaque.\<close>

fun status :: "wevent list \<Rightarrow> nat option" where
  "status [] = Some 200"
| "status (WriteHeader code # _) = Some code"
| "status (Write _ # _) = Some 200"
| "status (Encoded _ # _) = Some 200"
| "status (SendNotFound _ _ # _) = None"
| "status (SendUnknownError _ # _) = None"

subsection \<open>The handler and the functions it imports\<close>

record 's Handler =
  svc_Get :: "string \<Rightarrow> 's \<Rightarrow> error + kube"
  svc_Create :: "kube \<Rightarrow> 's \<Rightarrow> error option \<times> 's"
  svc_Delete :: "string \<Rightarrow> 's \<Rightarrow> error option \<times> 's"
  accountService_Get :: "string \<Rightarrow> 's \<Rightarrow> error + CloudAccount"
  nodeProvisioner_ProvisionNodes ::
    "NodeProfile list \<Rightarrow> kube \<Rightarrow> config \<Rightarrow> 's \<Rightarrow> (error + string list) \<times> 's"
  workflowMap :: "string \<rightharpoonup> WorkflowSet"
  repo_GetAll :: "'s \<Rightarrow> error + raw list"
  repo_Put :: "string \<Rightarrow> raw \<Rightarrow> 's \<Rightarrow> error option \<times> 's"
  repo_Delete :: "string \<Rightarrow> 's \<Rightarrow> error option \<times> 's"
  getWriter :: "string \<Rightarrow> error + WriteCloser"

record 's pkg =
  Unmarshal :: "raw \<Rightarrow> error + task"
  Marshal :: "task \<Rightarrow> raw"
  DecodeNodeProfiles :: "string \<Rightarrow> error + NodeProfile list"
  Encode :: "json \<Rightarrow> error option"
  FillCloudAccountCredentials :: "CloudAccount \<Rightarrow> config \<Rightarrow> error + config"
  NewConfig :: "string \<Rightarrow> string \<Rightarrow> string \<Rightarrow> Profile \<Rightarrow> config"
  AddMaster :: "node \<Rightarrow> config \<Rightarrow> config"
  GetRandomNode :: "(string \<times> node) list \<Rightarrow> node"
  GetWorkflow :: "string \<rightharpoonup> string list"
  NewID :: "'s \<Rightarrow> string"

text \<open>\<open>NewHandler\<close>: one provider is mapped. The three names are constants of pkg/clouds
  and pkg/workflows and are taken as arguments.\<close>

definition NewHandler_workflowMap :: "string \<Rightarrow> string \<Rightarrow> string \<Rightarrow> (string \<rightharpoonup> WorkflowSet)" where
  "NewHandler_workflowMap DigitalOcean DigitalOceanDeleteCluster DigitalOceanDeleteNode =
     [DigitalOcean \<mapsto> \<lparr>DeleteCluster = DigitalOceanDeleteCluster,
                       DeleteNode = DigitalOceanDeleteNode\<rparr>]"

text \<open>Indexing a Go map with a missing key gives the zero value of the element type.\<close>

definition zero_WorkflowSet :: WorkflowSet where
  "zero_WorkflowSet = \<lparr>DeleteCluster = [], DeleteNode = []\<rparr>"

definition index_workflowMap :: "(string \<rightharpoonup> WorkflowSet) \<Rightarrow> string \<Rightarrow> WorkflowSet" where
  "index_workflowMap m provider =
     (case m provider of None \<Rightarrow> zero_WorkflowSet | Some ws \<Rightarrow> ws)"

text \<open>Calls that change the store are recorded as they are issued.\<close>

definition logf :: "logent \<Rightarrow> 's world \<Rightarrow> 's world" where
  "logf l wd = wd\<lparr>logs := logs wd @ [l]\<rparr>"

definition issue :: "call \<Rightarrow> 's \<Rightarrow> 's world \<Rightarrow> 's world" where
  "issue c s' wd = wd\<lparr>store := s', calls := calls wd @ [c]\<rparr>"

definition do_svc_Create :: "'s Handler \<Rightarrow> kube \<Rightarrow> 's world \<Rightarrow> error option \<times> 's world" where
  "do_svc_Create h k wd =
     (case svc_Create h k (store wd) of (err, s') \<Rightarrow> (err, issue (SvcCreate k) s' wd))"

definition do_svc_Delete :: "'s Handler \<Rightarrow> string \<Rightarrow> 's world \<Rightarrow> error option \<times> 's world" where
  "do_svc_Delete h kname wd =
     (case svc_Delete h kname (store wd) of (err, s') \<Rightarrow> (err, issue (SvcDelete kname) s' wd))"

definition do_repo_Put :: "'s Handler \<Rightarrow> string \<Rightarrow> raw \<Rightarrow> 's world \<Rightarrow> error option \<times> 's world" where
  "do_repo_Put h key v wd =
     (case repo_Put h key v (store wd) of (err, s') \<Rightarrow> (err, issue (RepoPut key v) s' wd))"

definition do_repo_Delete :: "'s Handler \<Rightarrow> string \<Rightarrow> 's world \<Rightarrow> error option \<times> 's world" where
  "do_repo_Delete h key wd =
     (case repo_Delete h key (store wd) of (err, s') \<Rightarrow> (err, issue (RepoDelete key) s' wd))"

definition do_ProvisionNodes ::
  "'s Handler \<Rightarrow> NodeProfile list \<Rightarrow> kube \<Rightarrow> config \<Rightarrow> 's world \<Rightarrow> (error + string list) \<times> 's world" where
  "do_ProvisionNodes h nps k cfg wd =
     (case nodeProvisioner_ProvisionNodes h nps k cfg (store wd) of
        (r, s') \<Rightarrow> (r, issue (ProvisionNodes nps k cfg) s' wd))"

text \<open>\<open>t.Run(ctx, *config, writer)\<close>: the task starts against a copy of the
  configuration; its completion arrives later on the returned channel.\<close>

definition Run :: "task \<Rightarrow> config \<Rightarrow> WriteCloser \<Rightarrow> 's world \<Rightarrow> 's world" where
  "Run t cfg writer wd = wd\<lparr>calls := calls wd @ [TaskRun t cfg writer]\<rparr>"

text \<open>
  Modelled from the spec: \<open>workflows.NewTask\<close> (pkg/workflows) is not part of the sources
  at hand. Section 4.2: it resolves the workflow kind to its ordered step list (NotFound
  if the kind is unregistered), allocates a fresh task with all step statuses pending,
  persists the initial record via the repository, and returns it.
\<close>

definition NewTask :: "'s Handler \<Rightarrow> 's pkg \<Rightarrow> string \<Rightarrow> 's world \<Rightarrow> (error + task) \<times> 's world" where
  "NewTask h p taskType wd =
     (case GetWorkflow p taskType of
        None \<Rightarrow> (Inl ErrNotFound, wd)
      | Some steps \<Rightarrow>
          (let t = \<lparr>task.ID = NewID p (store wd), Type = taskType, Status = ''pending'',
                    StepStatuses = map (\<lambda>n. \<lparr>StepName = n, Status = ''pending'', ErrMsg = []\<rparr>) steps,
                    Config = None\<rparr>
           in case do_repo_Put h (task.ID t) (Marshal p t) wd of
                (Some err, wd') \<Rightarrow> (Inl err, wd')
              | (None, wd') \<Rightarrow> (Inr t, wd')))"

subsection \<open>getKubeTasks and deleteClusterTasks\<close>

text \<open>The loop of \<open>getKubeTasks\<close>: \<open>tasks\<close> is the slice built so far. The test
  \<open>task != nil\<close> of the source is always true, the task being freshly allocated.\<close>

fun getKubeTasks_loop :: "'s pkg \<Rightarrow> string \<Rightarrow> raw list \<Rightarrow> task list \<Rightarrow> error + task list" where
  "getKubeTasks_loop p kubeName [] tasks = Inr tasks"
| "getKubeTasks_loop p kubeName (v # data) tasks =
     (case Unmarshal p v of
        Inl err \<Rightarrow> Inl (Wrap err ''unmarshal task data'')
      | Inr t \<Rightarrow>
          (case Config t of
             None \<Rightarrow> getKubeTasks_loop p kubeName data tasks
           | Some c \<Rightarrow>
               if ClusterName c = kubeName
               then getKubeTasks_loop p kubeName data (tasks @ [t])
               else getKubeTasks_loop p kubeName data tasks))"

definition getKubeTasks :: "'s Handler \<Rightarrow> 's pkg \<Rightarrow> string \<Rightarrow> 's \<Rightarrow> error + task list" where
  "getKubeTasks h p kubeName s =
     (case repo_GetAll h s of
        Inl err \<Rightarrow> Inl (Wrap err ''get cluster tasks'')
      | Inr data \<Rightarrow> getKubeTasks_loop p kubeName data [])"

fun deleteClusterTasks_loop :: "'s Handler \<Rightarrow> task list \<Rightarrow> 's world \<Rightarrow> 's world" where
  "deleteClusterTasks_loop h [] wd = wd"
| "deleteClusterTasks_loop h (t # tasks) wd =
     (case do_repo_Delete h (task.ID t) wd of
        (Some err, wd') \<Rightarrow>
          deleteClusterTasks_loop h tasks (logf (Warnf ''delete task %s: %v'' [S (task.ID t), E err]) wd')
      | (None, wd') \<Rightarrow> deleteClusterTasks_loop h tasks wd')"

definition deleteClusterTasks :: "'s Handler \<Rightarrow> 's pkg \<Rightarrow> string \<Rightarrow> 's world \<Rightarrow> error option \<times> 's world" where
  "deleteClusterTasks h p clusterName wd =
     (case getKubeTasks h p clusterName (store wd) of
        Inl err \<Rightarrow> (Some (Wrap err (''delete cluster '' @ clusterName @ '' tasks'')), wd)
      | Inr tasks \<Rightarrow> (None, deleteClusterTasks_loop h tasks wd))"

subsection \<open>getTasks\<close>

definition toDTO :: "task \<Rightarrow> taskDTO" where
  "toDTO t = \<lparr>taskDTO.ID = task.ID t, Type = task.Type t, Status = task.Status t,
              StepStatuses = task.StepStatuses t\<rparr>"

text \<open>The part of \<open>getTasks\<close> from \<open>if len(tasks) == 0\<close> on.\<close>

definition getTasks_respond :: "'s pkg \<Rightarrow> task list \<Rightarrow> wevent list" where
  "getTasks_respond p tasks =
     (if length tasks = 0 then http_Error (Str []) StatusNotFound
      else (case Encode p (JTasks (map toDTO tasks)) of
              Some err \<Rightarrow> http_Error (ErrorText err) StatusInternalServerError
            | None \<Rightarrow> [Encoded (JTasks (map toDTO tasks))]))"

text \<open>After \<open>message.SendUnknownError\<close> the source does not return: it goes on with
  \<open>tasks\<close> nil.\<close>

definition getTasks :: "'s Handler \<Rightarrow> 's pkg \<Rightarrow> (string \<rightharpoonup> string) \<Rightarrow> 's \<Rightarrow> wevent list" where
  "getTasks h p vars s =
     (case vars ''kname'' of
        None \<Rightarrow> http_Error (Str ''need name of a cluster'') StatusBadRequest
      | Some kname \<Rightarrow>
          (case getKubeTasks h p kname s of
             Inl err \<Rightarrow>
               if IsNotFound err then [SendNotFound kname err]
               else SendUnknownError err # getTasks_respond p []
           | Inr tasks \<Rightarrow> getTasks_respond p tasks))"

subsection \<open>deleteKube\<close>

text \<open>\<open>vars[key]\<close> without the \<open>ok\<close> test: the empty string when the key is missing.\<close>

definition mux_Var :: "(string \<rightharpoonup> string) \<Rightarrow> string \<Rightarrow> string" where
  "mux_Var vars key = (case vars key of None \<Rightarrow> [] | Some v \<Rightarrow> v)"

text \<open>A goroutine a handler starts: it waits for the completion of the task and then
  runs the reaction below, with the variables it captured.\<close>

datatype goroutine =
    AwaitDeleteKube task string
  | AwaitDeleteNode task kube string string

text \<open>The body of the goroutine of \<open>deleteKube\<close>; \<open>err\<close> is the value received from
  \<open>errChan\<close>.\<close>

definition deleteKube_done :: "'s Handler \<Rightarrow> 's pkg \<Rightarrow> string \<Rightarrow> error option \<Rightarrow> 's world \<Rightarrow> 's world" where
  "deleteKube_done h p kname err wd =
     (case err of
        Some _ \<Rightarrow> wd
      | None \<Rightarrow>
          (case do_svc_Delete h kname wd of
             (Some err', wd') \<Rightarrow> logf (Errorf ''delete kube %s caused %v'' [S kname, E err']) wd'
           | (None, wd') \<Rightarrow> snd (deleteClusterTasks h p kname wd')))"

definition deleteKube ::
  "'s Handler \<Rightarrow> 's pkg \<Rightarrow> (string \<rightharpoonup> string) \<Rightarrow> 's world \<Rightarrow> wevent list \<times> 's world \<times> goroutine option" where
  "deleteKube h p vars wd =
     (let kname = mux_Var vars ''kname'' in
      case svc_Get h kname (store wd) of
        Inl err \<Rightarrow>
          if IsNotFound err then ([SendNotFound kname err], wd, None)
          else ([SendUnknownError err], wd, None)
      | Inr k \<Rightarrow>
      (case accountService_Get h (AccountName k) (store wd) of
        Inl err \<Rightarrow>
          if IsNotFound err then (http_NotFound, wd, None)
          else ([SendUnknownError err], wd, None)
      | Inr acc \<Rightarrow>
      (case NewTask h p (DeleteCluster (index_workflowMap (workflowMap h) (CloudAccount.Provider acc))) wd of
        (Inl err, wd') \<Rightarrow>
          if IsNotFound err then (http_NotFound, wd', None)
          else ([SendUnknownError err], wd', None)
      | (Inr t, wd') \<Rightarrow>
      (case FillCloudAccountCredentials p acc
              \<lparr>ClusterName = kube.Name k, CloudAccountName = AccountName k,
               Node = \<lparr>node.Name = []\<rparr>, Rest = []\<rparr> of
        Inl err \<Rightarrow>
          if IsNotFound err then (http_NotFound, wd', None)
          else ([SendUnknownError err], wd', None)
      | Inr config \<Rightarrow>
      (case getWriter h (task.ID t) of
        Inl err \<Rightarrow> ([SendUnknownError err], wd', None)
      | Inr writer \<Rightarrow>
          ([WriteHeader StatusAccepted], Run t config writer wd',
           Some (AwaitDeleteKube t kname)))))))"

subsection \<open>addNode\<close>

definition addNode ::
  "'s Handler \<Rightarrow> 's pkg \<Rightarrow> (string \<rightharpoonup> string) \<Rightarrow> string \<Rightarrow> 's world \<Rightarrow> wevent list \<times> 's world" where
  "addNode h p vars reqBody wd =
     (let kname = mux_Var vars ''kname'' in
      case svc_Get h kname (store wd) of
        Inl err \<Rightarrow>
          if IsNotFound err then (http_NotFound, wd)
          else (http_Error (ErrorText err) StatusInternalServerError, wd)
      | Inr k \<Rightarrow>
      (case DecodeNodeProfiles p reqBody of
        Inl err \<Rightarrow> (http_Error (ErrorText err) StatusBadRequest, wd)
      | Inr nodeProfiles \<Rightarrow>
      (case accountService_Get h (AccountName k) (store wd) of
        Inl err \<Rightarrow>
          if IsNotFound err then (http_NotFound, wd)
          else (http_Error (ErrorText err) StatusInternalServerError, wd)
      | Inr acc \<Rightarrow>
      (let kubeProfile =
             \<lparr>Profile.Provider = CloudAccount.Provider acc,
              Region = kube.Region k,
              Arch = kube.Arch k,
              OperatingSystem = kube.OperatingSystem k,
              UbuntuVersion = OperatingSystemVersion k,
              DockerVersion = kube.DockerVersion k,
              K8SVersion = kube.K8SVersion k,
              HelmVersion = kube.HelmVersion k,
              NetworkType = networking.Type (Networking k),
              CIDR = networking.CIDR (Networking k),
              FlannelVersion = Version (Networking k),
              NodesProfiles = [[]],
              RBACEnabled = kube.RBACEnabled k\<rparr>;
           config = NewConfig p (kube.Name k) [] (AccountName k) kubeProfile
       in
       if length (Masters k) \<noteq> 0 then
         (case FillCloudAccountCredentials p acc (AddMaster p (GetRandomNode p (Masters k)) config) of
            Inl err \<Rightarrow> (http_Error (ErrorText err) StatusInternalServerError, wd)
          | Inr config' \<Rightarrow>
          (case do_ProvisionNodes h nodeProfiles k config' wd of
            (Inl err, wd') \<Rightarrow>
              if IsNotFound err then (http_Error (ErrorText err) StatusNotFound, wd')
              else (http_Error (ErrorText err) StatusInternalServerError, wd')
          | (Inr tasks, wd') \<Rightarrow>
              (case Encode p (JStrings tasks) of
                 Some err \<Rightarrow>
                   (WriteHeader StatusAccepted # http_Error (ErrorText err) StatusInternalServerError,
                    logf (Errorf ''%v'' [E (Wrap err ''marshal json'')]) wd')
               | None \<Rightarrow> ([WriteHeader StatusAccepted, Encoded (JStrings tasks)], wd'))))
       else (http_Error (Str ''no master found'') StatusNotFound, wd)))))"

subsection \<open>deleteNode\<close>

text \<open>The body of the goroutine of \<open>deleteNode\<close>. It captured the cluster object \<open>k\<close>,
  which it changes in place: the changed object is returned with the world.\<close>

definition deleteNode_done ::
  "'s Handler \<Rightarrow> kube \<Rightarrow> string \<Rightarrow> string \<Rightarrow> error option \<Rightarrow> 's world \<Rightarrow> kube \<times> 's world" where
  "deleteNode_done h k nodeName kname err wd =
     (let wd1 = (case err of
                   Some e \<Rightarrow> logf (Errorf ''delete node %s from cluster %s caused %v''
                                      [S nodeName, S kname, E e]) wd
                 | None \<Rightarrow> wd);
          k' = k\<lparr>Nodes := AList.delete nodeName (Nodes k)\<rparr>;
          wd2 = logf (Infof ''delete node %s from cluster %s'' [S nodeName, S kname]) wd1
      in case do_svc_Create h k' wd2 of
           (Some e, wd3) \<Rightarrow> (k', logf (Errorf ''update cluster %s caused %v'' [S kname, E e]) wd3)
         | (None, wd3) \<Rightarrow> (k', wd3))"

definition deleteNode ::
  "'s Handler \<Rightarrow> 's pkg \<Rightarrow> (string \<rightharpoonup> string) \<Rightarrow> 's world \<Rightarrow> wevent list \<times> 's world \<times> goroutine option" where
  "deleteNode h p vars wd =
     (let kname = mux_Var vars ''kname''; nodeName = mux_Var vars ''nodename'' in
      case svc_Get h kname (store wd) of
        Inl err \<Rightarrow>
          if IsNotFound err then ([SendNotFound kname err], wd, None)
          else ([SendUnknownError err], wd, None)
      | Inr k \<Rightarrow>
      if map_of (Masters k) nodeName \<noteq> None
      then (http_Error (Str ''delete master node not allowed'') StatusMethodNotAllowed, wd, None)
      else if map_of (Nodes k) nodeName = None
      then (http_NotFound, wd, None)
      else
      (case accountService_Get h (AccountName k) (store wd) of
        Inl err \<Rightarrow>
          if IsNotFound err then (http_NotFound, wd, None)
          else ([SendUnknownError err], wd, None)
      | Inr acc \<Rightarrow>
      (case NewTask h p (DeleteNode (index_workflowMap (workflowMap h) (CloudAccount.Provider acc))) wd of
        (Inl err, wd') \<Rightarrow>
          if IsNotFound err then (http_NotFound, wd', None)
          else ([SendUnknownError err], wd', None)
      | (Inr t, wd') \<Rightarrow>
      (case FillCloudAccountCredentials p acc
              \<lparr>ClusterName = kube.Name k, CloudAccountName = AccountName k,
               Node = \<lparr>node.Name = nodeName\<rparr>, Rest = []\<rparr> of
        Inl err \<Rightarrow>
          if IsNotFound err then (http_NotFound, wd', None)
          else ([SendUnknownError err], wd', None)
      | Inr config \<Rightarrow>
      (case getWriter h (task.ID t) of
        Inl err \<Rightarrow> ([SendUnknownError err], wd', None)
      | Inr writer \<Rightarrow>
          ([WriteHeader StatusAccepted], Run t config writer wd',
           Some (AwaitDeleteNode t k nodeName kname)))))))"

section \<open>Vocabulary of the properties\<close>

text \<open>A task belongs to a cluster when it has a configuration and the configuration
  names the cluster.\<close>

definition belongs :: "string \<Rightarrow> task \<Rightarrow> bool" where
  "belongs kubeName t = (case Config t of None \<Rightarrow> False | Some c \<Rightarrow> ClusterName c = kubeName)"

definition decodes :: "'s pkg \<Rightarrow> raw \<Rightarrow> bool" where
  "decodes p v = (case Unmarshal p v of Inl _ \<Rightarrow> False | Inr _ \<Rightarrow> True)"

text \<open>The tasks of the records that decode, in the order of the records.\<close>

definition decode_all :: "'s pkg \<Rightarrow> raw list \<Rightarrow> task list" where
  "decode_all p data = concat (map (\<lambda>v. case Unmarshal p v of Inl _ \<Rightarrow> [] | Inr t \<Rightarrow> [t]) data)"

text \<open>A record belongs to a cluster when it decodes to a task that does; a keyed record
  is stored under the identity of its task when it decodes and the key is that identity.\<close>

definition record_belongs :: "'s pkg \<Rightarrow> string \<Rightarrow> raw \<Rightarrow> bool" where
  "record_belongs p kubeName v =
     (case Unmarshal p v of Inl _ \<Rightarrow> False | Inr t \<Rightarrow> belongs kubeName t)"

definition keyed_by_ID :: "'s pkg \<Rightarrow> string \<times> raw \<Rightarrow> bool" where
  "keyed_by_ID p kv =
     (case Unmarshal p (snd kv) of Inl _ \<Rightarrow> False | Inr t \<Rightarrow> task.ID t = fst kv)"

text \<open>The configuration \<open>addNode\<close> builds for a cluster with a master, before the
  credentials are filled in: the same expressions as in the handler.\<close>

definition addNode_config :: "'s pkg \<Rightarrow> CloudAccount \<Rightarrow> kube \<Rightarrow> config" where
  "addNode_config p acc k =
     AddMaster p (GetRandomNode p (Masters k))
       (NewConfig p (kube.Name k) [] (AccountName k)
          \<lparr>Profile.Provider = CloudAccount.Provider acc,
           Region = kube.Region k,
           Arch = kube.Arch k,
           OperatingSystem = kube.OperatingSystem k,
           UbuntuVersion = OperatingSystemVersion k,
           DockerVersion = kube.DockerVersion k,
           K8SVersion = kube.K8SVersion k,
           HelmVersion = kube.HelmVersion k,
           NetworkType = networking.Type (Networking k),
           CIDR = networking.CIDR (Networking k),
           FlannelVersion = Version (Networking k),
           NodesProfiles = [[]],
           RBACEnabled = kube.RBACEnabled k\<rparr>)"

section \<open>An in-memory instance\<close>

text \<open>
  Modelled from the spec: the storage engine and the services behind the handler are not
  part of the sources at hand. This instance keeps cluster records, cloud accounts and
  task records in association lists and follows the repository contract of section 4.3
  (list all, put, delete answering NotFound for a missing key). It serves to run the
  handler on concrete requests.
\<close>

record mem =
  mem_kubes :: "(string \<times> kube) list"
  mem_accounts :: "(string \<times> CloudAccount) list"
  mem_records :: "(string \<times> raw) list"

definition mem_Handler :: "mem Handler" where
  "mem_Handler =
     \<lparr>svc_Get = (\<lambda>kname s. case map_of (mem_kubes s) kname of
                    None \<Rightarrow> Inl ErrNotFound | Some k \<Rightarrow> Inr k),
      svc_Create = (\<lambda>k s. (None, s\<lparr>mem_kubes := AList.update (kube.Name k) k (mem_kubes s)\<rparr>)),
      svc_Delete = (\<lambda>kname s.
         if map_of (mem_kubes s) kname = None then (Some ErrNotFound, s)
         else (None, s\<lparr>mem_kubes := AList.delete kname (mem_kubes s)\<rparr>)),
      accountService_Get = (\<lambda>name s. case map_of (mem_accounts s) name of
                    None \<Rightarrow> Inl ErrNotFound | Some a \<Rightarrow> Inr a),
      nodeProvisioner_ProvisionNodes = (\<lambda>nps k cfg s.
         if nps = [] then (Inl (ErrOther ''no profiles''), s)
         else if [] \<in> set nps then (Inl (Wrap ErrNotFound ''provision node''), s)
         else (Inr (map (\<lambda>np. ''task-'' @ concat (map snd np)) nps), s)),
      workflowMap = NewHandler_workflowMap ''digitalocean'' ''DODeleteCluster'' ''DODeleteNode'',
      repo_GetAll = (\<lambda>s. Inr (map snd (mem_records s))),
      repo_Put = (\<lambda>key v s. (None, s\<lparr>mem_records := AList.update key v (mem_records s)\<rparr>)),
      repo_Delete = (\<lambda>key s.
         if map_of (mem_records s) key = None then (Some ErrNotFound, s)
         else (None, s\<lparr>mem_records := AList.delete key (mem_records s)\<rparr>)),
      getWriter = (\<lambda>taskID. Inr (taskID @ ''.log''))\<rparr>"

text \<open>A toy record format: \<open>{id:cluster\<close> is a task of a cluster, \<open>{id\<close> a task
  without configuration, anything else does not decode.\<close>

definition mem_Unmarshal :: "raw \<Rightarrow> error + task" where
  "mem_Unmarshal v =
     (case v of
        [] \<Rightarrow> Inl (ErrOther ''unexpected end of JSON input'')
      | c # cs \<Rightarrow>
          if c = CHR ''{'' then
            Inr \<lparr>task.ID = takeWhile (\<lambda>x. x \<noteq> CHR '':'') cs, Type = ''DODeleteNode'',
                 Status = ''success'', StepStatuses = [],
                 Config = (case dropWhile (\<lambda>x. x \<noteq> CHR '':'') cs of
                             [] \<Rightarrow> None
                           | _ # cl \<Rightarrow> Some \<lparr>ClusterName = cl, CloudAccountName = [],
                                               Node = \<lparr>node.Name = []\<rparr>, Rest = []\<rparr>)\<rparr>
          else Inl (ErrOther ''invalid character''))"

definition mem_pkg :: "mem pkg" where
  "mem_pkg =
     \<lparr>Unmarshal = mem_Unmarshal,
      Marshal = (\<lambda>t. CHR ''{'' # task.ID t @
                      (case Config t of None \<Rightarrow> [] | Some c \<Rightarrow> CHR '':'' # ClusterName c)),
      DecodeNodeProfiles = (\<lambda>b. if b = ''[]'' then Inr [] else if b = ''[{}]'' then Inr [[]]
                                 else if b = ''[{size:s}]'' then Inr [[(''size'', ''s'')]]
                                 else Inl (ErrOther ''invalid character'')),
      Encode = (\<lambda>j. None),
      FillCloudAccountCredentials = (\<lambda>acc cfg. Inr (cfg\<lparr>Rest := [CloudAccount.Name acc]\<rparr>)),
      NewConfig = (\<lambda>clusterName discoveryUrl accountName prof.
                     \<lparr>ClusterName = clusterName, CloudAccountName = accountName,
                      Node = \<lparr>node.Name = []\<rparr>, Rest = []\<rparr>),
      AddMaster = (\<lambda>n cfg. cfg),
      GetRandomNode = (\<lambda>m. case m of [] \<Rightarrow> \<lparr>node.Name = []\<rparr> | (_, n) # _ \<Rightarrow> n),
      GetWorkflow = [''DODeleteCluster'' \<mapsto> [''DeleteMachines'', ''DeleteKeys''],
                     ''DODeleteNode'' \<mapsto> [''DeleteNode'']],
      NewID = (\<lambda>s. ''task'' @ replicate (length (mem_records s)) CHR ''i'')\<rparr>"

definition kube1 :: "string \<Rightarrow> kube" where
  "kube1 accountName =
     \<lparr>kube.Name = ''alpha'', AccountName = accountName, Region = ''fra1'', Arch = ''amd64'',
      OperatingSystem = ''linux'', OperatingSystemVersion = ''16.04'',
      DockerVersion = ''17.06'', K8SVersion = ''1.11'', HelmVersion = ''2.9'',
      Networking = \<lparr>networking.Type = ''flannel'', CIDR = ''10.0.0.0/24'', Version = ''0.10''\<rparr>,
      RBACEnabled = True,
      Masters = [(''m1'', \<lparr>node.Name = ''m1''\<rparr>)],
      Nodes = [(''n1'', \<lparr>node.Name = ''n1''\<rparr>), (''n2'', \<lparr>node.Name = ''n2''\<rparr>)]\<rparr>"

text \<open>Two accounts: one of the mapped provider, one of a provider \<open>NewHandler\<close> does
  not map.\<close>

definition mem1 :: "raw list \<Rightarrow> string \<Rightarrow> mem" where
  "mem1 extra accountName =
     \<lparr>mem_kubes = [(''alpha'', kube1 accountName)],
      mem_accounts = [(''do'', \<lparr>CloudAccount.Name = ''do'', Provider = ''digitalocean''\<rparr>),
                      (''aws'', \<lparr>CloudAccount.Name = ''aws'', Provider = ''aws''\<rparr>)],
      mem_records = [(''t1'', ''{t1:alpha''), (''t2'', ''{t2:beta''), (''t3'', ''{t3:alpha''),
                     (''t4'', ''{t4'')] @ map (\<lambda>v. (''x'', v)) extra\<rparr>"

definition world1 :: "raw list \<Rightarrow> string \<Rightarrow> mem world" where
  "world1 extra accountName = \<lparr>store = mem1 extra accountName, calls = [], logs = []\<rparr>"

text \<open>The configuration \<open>addNode\<close> hands to the provisioner for cluster \<open>alpha\<close> of
  account \<open>do\<close>.\<close>

definition cfg1 :: config where
  "cfg1 = \<lparr>ClusterName = ''alpha'', CloudAccountName = ''do'',
           Node = \<lparr>node.Name = []\<rparr>, Rest = [''do'']\<rparr>"

text \<open>A store whose first record sits under a key that is not the identity of its task:
  the task of cluster \<open>alpha\<close> has identity \<open>b\<close>, the key of the record of a task of
  cluster \<open>beta\<close>.\<close>

definition world2 :: "mem world" where
  "world2 = \<lparr>store = \<lparr>mem_kubes = [], mem_accounts = [],
                       mem_records = [(''a'', ''{b:alpha''), (''b'', ''{x:beta'')]\<rparr>,
             calls = [], logs = []\<rparr>"

section \<open>Listing the tasks of a cluster\<close>

lemmas mem_defs = mem_Handler_def mem_pkg_def mem_Unmarshal_def mem1_def world1_def kube1_def

lemma getKubeTasks_loop_decodes:
  "list_all (decodes p) data \<Longrightarrow>
   getKubeTasks_loop p kubeName data tasks = Inr (tasks @ filter (belongs kubeName) (decode_all p data))"
  by (induction data arbitrary: tasks)
     (auto simp: belongs_def decode_all_def decodes_def split: option.splits sum.splits)

lemma getKubeTasks_loop_corrupt:
  "\<not> list_all (decodes p) data \<Longrightarrow>
   \<exists>e. getKubeTasks_loop p kubeName data tasks = Inl (Wrap e ''unmarshal task data'')"
proof (induction data arbitrary: tasks)
  case Nil
  then show ?case by simp
next
  case (Cons v data)
  show ?case
  proof (cases "Unmarshal p v")
    case (Inl e)
    then show ?thesis by simp
  next
    case (Inr t)
    then have "decodes p v" by (simp add: decodes_def)
    with Cons.prems have "\<not> list_all (decodes p) data" by simp
    from Cons.IH[OF this] Inr show ?thesis
      by (cases "Config t") auto
  qed
qed

text \<open>
  C1, as stated, at a concrete store: the store holds a task of cluster \<open>alpha\<close> whose
  record decodes, and one record that does not decode. \<open>getKubeTasks\<close> for \<open>alpha\<close>
  answers with an error, so the persisted task of that cluster is not in its result.
\<close>

theorem getKubeTasks_all_clusters_counterexample:
  "repo_GetAll mem_Handler (mem1 [''garbage''] ''do'')
     = Inr [''{t1:alpha'', ''{t2:beta'', ''{t3:alpha'', ''{t4'', ''garbage'']
   \<and> Unmarshal mem_pkg ''{t1:alpha''
     = Inr \<lparr>task.ID = ''t1'', Type = ''DODeleteNode'', Status = ''success'', StepStatuses = [],
            Config = Some \<lparr>ClusterName = ''alpha'', CloudAccountName = [],
                           Node = \<lparr>node.Name = []\<rparr>, Rest = []\<rparr>\<rparr>
   \<and> getKubeTasks mem_Handler mem_pkg ''alpha'' (mem1 [''garbage''] ''do'')
     = Inl (Wrap (ErrOther ''invalid character'') ''unmarshal task data'')"
  by (simp add: mem_defs getKubeTasks_def)

text \<open>
  C1, amended: whenever the repository lists the records under the task prefix and every
  one of them decodes, \<open>getKubeTasks\<close> returns exactly the decoded tasks that have a
  configuration naming the queried cluster, in the order of the records: every such task
  is in the result, and no task of another cluster or without configuration is, however
  many of those the listing holds.
\<close>

theorem getKubeTasks_exact:
  assumes "repo_GetAll h s = Inr data" and "list_all (decodes p) data"
  shows "getKubeTasks h p kubeName s = Inr (filter (belongs kubeName) (decode_all p data))"
  using assms getKubeTasks_loop_decodes[of p data kubeName "[]"]
  by (simp add: getKubeTasks_def)

theorem getKubeTasks_exact_witness:
  "repo_GetAll mem_Handler (mem1 [] ''do'') = Inr [''{t1:alpha'', ''{t2:beta'', ''{t3:alpha'', ''{t4'']
   \<and> list_all (decodes mem_pkg) [''{t1:alpha'', ''{t2:beta'', ''{t3:alpha'', ''{t4'']
   \<and> getKubeTasks mem_Handler mem_pkg ''alpha'' (mem1 [] ''do'')
     = Inr (filter (belongs ''alpha'')
              (decode_all mem_pkg [''{t1:alpha'', ''{t2:beta'', ''{t3:alpha'', ''{t4'']))
   \<and> map task.ID (filter (belongs ''alpha'')
              (decode_all mem_pkg [''{t1:alpha'', ''{t2:beta'', ''{t3:alpha'', ''{t4'']))
     = [''t1'', ''t3'']"
proof -
  have a: "repo_GetAll mem_Handler (mem1 [] ''do'')
             = Inr [''{t1:alpha'', ''{t2:beta'', ''{t3:alpha'', ''{t4'']"
    by (simp add: mem_defs)
  have b: "list_all (decodes mem_pkg) [''{t1:alpha'', ''{t2:beta'', ''{t3:alpha'', ''{t4'']"
    by (simp add: mem_defs decodes_def)
  have c: "map task.ID (filter (belongs ''alpha'')
              (decode_all mem_pkg [''{t1:alpha'', ''{t2:beta'', ''{t3:alpha'', ''{t4'']))
     = [''t1'', ''t3'']"
    by (simp add: mem_defs decode_all_def belongs_def)
  from getKubeTasks_exact[OF a b, of "''alpha''"] a b c show ?thesis by simp
qed

text \<open>
  C10: if the repository lists the records and any one of them fails to decode as a task,
  \<open>getKubeTasks\<close> returns an error wrapping a decoding error, and so no tasks, whatever
  cluster is asked for - also a cluster whose own records all decode.
\<close>

theorem getKubeTasks_corrupt_record:
  assumes "repo_GetAll h s = Inr data" and "v \<in> set data" and "Unmarshal p v = Inl e"
  shows "\<exists>e'. getKubeTasks h p kubeName s = Inl (Wrap e' ''unmarshal task data'')"
proof -
  from assms(3) have "\<not> decodes p v" by (simp add: decodes_def)
  with assms(2) have "\<not> list_all (decodes p) data" by (auto simp: list_all_iff)
  from getKubeTasks_loop_corrupt[OF this] assms(1) show ?thesis
    by (simp add: getKubeTasks_def)
qed

theorem getKubeTasks_corrupt_record_witness:
  "repo_GetAll mem_Handler (mem1 [''garbage''] ''do'')
     = Inr [''{t1:alpha'', ''{t2:beta'', ''{t3:alpha'', ''{t4'', ''garbage'']
   \<and> Unmarshal mem_pkg ''garbage'' = Inl (ErrOther ''invalid character'')
   \<and> (\<exists>e'. getKubeTasks mem_Handler mem_pkg ''beta'' (mem1 [''garbage''] ''do'')
             = Inl (Wrap e' ''unmarshal task data''))"
proof -
  have a: "repo_GetAll mem_Handler (mem1 [''garbage''] ''do'')
     = Inr [''{t1:alpha'', ''{t2:beta'', ''{t3:alpha'', ''{t4'', ''garbage'']"
    by (simp add: mem_defs)
  have b: "Unmarshal mem_pkg ''garbage'' = Inl (ErrOther ''invalid character'')"
    by (simp add: mem_defs)
  have c: "''garbage'' \<in> set [''{t1:alpha'', ''{t2:beta'', ''{t3:alpha'', ''{t4'', ''garbage'']"
    by simp
  from getKubeTasks_corrupt_record[OF a c b] a b show ?thesis by blast
qed



section \<open>Deleting the tasks of a cluster\<close>

lemma deleteClusterTasks_loop_calls:
  "calls (deleteClusterTasks_loop h tasks wd) = calls wd @ map RepoDelete (map task.ID tasks)"
  by (induction tasks arbitrary: wd)
     (auto simp: do_repo_Delete_def issue_def logf_def split: prod.splits option.splits)

lemma deleteClusterTasks_loop_store:
  "store (deleteClusterTasks_loop h tasks wd)
     = foldl (\<lambda>s key. snd (repo_Delete h key s)) (store wd) (map task.ID tasks)"
  by (induction tasks arbitrary: wd)
     (auto simp: do_repo_Delete_def issue_def logf_def split: prod.splits option.splits)

lemma deleteClusterTasks_calls:
  "\<exists>ids. calls (snd (deleteClusterTasks h p clusterName wd)) = calls wd @ map RepoDelete ids"
proof (cases "getKubeTasks h p clusterName (store wd)")
  case (Inl err)
  then have "calls (snd (deleteClusterTasks h p clusterName wd)) = calls wd @ map RepoDelete []"
    by (simp add: deleteClusterTasks_def)
  then show ?thesis by blast
next
  case (Inr tasks)
  then have "calls (snd (deleteClusterTasks h p clusterName wd))
               = calls wd @ map RepoDelete (map task.ID tasks)"
    by (simp add: deleteClusterTasks_def deleteClusterTasks_loop_calls)
  then show ?thesis by blast
qed

lemma keyed_decodes:
  "list_all (keyed_by_ID p) recs \<Longrightarrow> list_all (decodes p) (map snd recs)"
  by (induction recs) (auto simp: keyed_by_ID_def decodes_def split: sum.splits)

lemma keyed_IDs:
  "list_all (keyed_by_ID p) recs \<Longrightarrow>
   map task.ID (filter (belongs c) (decode_all p (map snd recs)))
     = map fst (filter (\<lambda>kv. record_belongs p c (snd kv)) recs)"
  by (induction recs)
     (auto simp: keyed_by_ID_def decode_all_def record_belongs_def split: sum.splits)

lemma deleteClusterTasks_loop_frame:
  assumes "\<forall>key s. filter (\<lambda>kv. fst kv \<noteq> key) (recs (snd (repo_Delete h key s)))
                     = filter (\<lambda>kv. fst kv \<noteq> key) (recs s)"
  shows "filter (\<lambda>kv. fst kv \<notin> set (map task.ID tasks)) (recs (store (deleteClusterTasks_loop h tasks wd)))
           = filter (\<lambda>kv. fst kv \<notin> set (map task.ID tasks)) (recs (store wd))"
proof (induction tasks arbitrary: wd)
  case Nil
  then show ?case by simp
next
  case (Cons t tasks)
  let ?s' = "snd (repo_Delete h (task.ID t) (store wd))"
  obtain wd' where step: "deleteClusterTasks_loop h (t # tasks) wd = deleteClusterTasks_loop h tasks wd'"
    and st: "store wd' = ?s'"
    by (cases "repo_Delete h (task.ID t) (store wd)"; cases "fst (repo_Delete h (task.ID t) (store wd))")
       (auto simp: do_repo_Delete_def issue_def logf_def)
  let ?P = "\<lambda>kv. fst kv \<notin> set (map task.ID tasks)"
  let ?Q = "\<lambda>kv. fst kv \<noteq> task.ID t"
  have "filter (\<lambda>kv. fst kv \<notin> set (map task.ID (t # tasks))) (recs (store (deleteClusterTasks_loop h tasks wd')))
          = filter ?Q (filter ?P (recs (store (deleteClusterTasks_loop h tasks wd'))))"
    by (auto intro: filter_cong)
  also have "\<dots> = filter ?Q (filter ?P (recs ?s'))"
    using Cons.IH[of wd'] st by simp
  also have "\<dots> = filter ?P (filter ?Q (recs ?s'))"
    by (auto intro: filter_cong)
  also have "\<dots> = filter ?P (filter ?Q (recs (store wd)))"
    using assms by simp
  also have "\<dots> = filter (\<lambda>kv. fst kv \<notin> set (map task.ID (t # tasks))) (recs (store wd))"
    by (auto intro: filter_cong)
  finally show ?case using step by simp
qed

lemma filter_absorb: "(\<And>x. K x \<Longrightarrow> N x) \<Longrightarrow> filter K (filter N xs) = filter K xs"
  by (induction xs) auto

lemma distinct_keys_filter:
  assumes "distinct (map fst xs)"
  shows "filter (\<lambda>kv. fst kv \<in> fst ` set (filter P xs)) xs = filter P xs"
proof (rule filter_cong[OF refl])
  fix x assume x: "x \<in> set xs"
  from assms have inj: "inj_on fst (set xs)" by (simp add: distinct_map)
  show "(fst x \<in> fst ` set (filter P xs)) = P x"
  proof
    assume "fst x \<in> fst ` set (filter P xs)"
    then obtain y where y: "y \<in> set xs" "P y" "fst y = fst x" by auto
    with inj x have "y = x" by (auto dest: inj_onD)
    with y show "P x" by simp
  next
    assume "P x"
    with x show "fst x \<in> fst ` set (filter P xs)" by auto
  qed
qed

lemma distinct_keys_disjoint:
  assumes "distinct (map fst xs)" and "x \<in> set xs" and "\<not> P x"
  shows "fst x \<notin> fst ` set (filter P xs)"
proof
  assume "fst x \<in> fst ` set (filter P xs)"
  then obtain y where y: "y \<in> set xs" "P y" "fst y = fst x" by auto
  from assms(1) have "inj_on fst (set xs)" by (simp add: distinct_map)
  with y assms(2) have "y = x" by (auto dest: inj_onD)
  with y assms(3) show False by simp
qed

lemma mem_repo_Delete_frame:
  "filter (\<lambda>kv. fst kv \<noteq> key) (mem_records (snd (repo_Delete mem_Handler key s)))
     = filter (\<lambda>kv. fst kv \<noteq> key) (mem_records s)"
proof -
  have "filter (\<lambda>kv. fst kv \<noteq> key) (AList.delete key xs) = filter (\<lambda>kv. fst kv \<noteq> key) xs" for xs :: "(string \<times> raw) list"
    by (induction xs) auto
  then show ?thesis by (simp add: mem_Handler_def)
qed

text \<open>
  C2, as stated, at two concrete stores. The first holds the record of task \<open>t1\<close> of
  cluster \<open>alpha\<close> and one record that does not decode: \<open>deleteClusterTasks\<close> for
  \<open>alpha\<close> returns the listing error and leaves the world as it was, so it issues no
  delete for \<open>t1\<close>. In the second the record of the task of cluster \<open>alpha\<close> sits
  under key \<open>a\<close> while the task has identity \<open>b\<close>, the key of the record of a task of
  cluster \<open>beta\<close>: the only delete issued is for \<open>b\<close>, which removes the record of the
  task of \<open>beta\<close> and leaves the one of \<open>alpha\<close>.
\<close>

theorem deleteClusterTasks_every_store_counterexample:
  "Unmarshal mem_pkg ''{t1:alpha''
     = Inr \<lparr>task.ID = ''t1'', Type = ''DODeleteNode'', Status = ''success'', StepStatuses = [],
            Config = Some \<lparr>ClusterName = ''alpha'', CloudAccountName = [],
                           Node = \<lparr>node.Name = []\<rparr>, Rest = []\<rparr>\<rparr>
   \<and> map_of (mem_records (store (world1 [''garbage''] ''do''))) ''t1'' = Some ''{t1:alpha''
   \<and> deleteClusterTasks mem_Handler mem_pkg ''alpha'' (world1 [''garbage''] ''do'')
     = (Some (Wrap (Wrap (ErrOther ''invalid character'') ''unmarshal task data'')
                ''delete cluster alpha tasks''),
        world1 [''garbage''] ''do'')
   \<and> calls (world1 [''garbage''] ''do'') = []
   \<and> mem_records (store world2) = [(''a'', ''{b:alpha''), (''b'', ''{x:beta'')]
   \<and> Unmarshal mem_pkg ''{x:beta''
     = Inr \<lparr>task.ID = ''x'', Type = ''DODeleteNode'', Status = ''success'', StepStatuses = [],
            Config = Some \<lparr>ClusterName = ''beta'', CloudAccountName = [],
                           Node = \<lparr>node.Name = []\<rparr>, Rest = []\<rparr>\<rparr>
   \<and> calls (snd (deleteClusterTasks mem_Handler mem_pkg ''alpha'' world2)) = [RepoDelete ''b'']
   \<and> mem_records (store (snd (deleteClusterTasks mem_Handler mem_pkg ''alpha'' world2)))
     = [(''a'', ''{b:alpha'')]"
  by (simp add: mem_defs world2_def getKubeTasks_def deleteClusterTasks_def do_repo_Delete_def
        issue_def AList.delete_eq)

text \<open>
  C2, amended: let \<open>recs\<close> read the store as records with distinct keys, let the
  repository list them, let every record decode and be stored under the identity of its
  task, and let a repository delete change no record under another key. Then
  \<open>deleteClusterTasks\<close> issues one delete per task whose configuration names the cluster,
  keyed by its identity, and nothing else; a delete is issued for the key of a record
  exactly when its task belongs to the cluster, so none for a task of another cluster;
  and the records of the tasks that do not belong to the cluster are in the store
  afterwards exactly as they were.
\<close>

theorem deleteClusterTasks_deletes:
  fixes recs :: "'s \<Rightarrow> (string \<times> raw) list"
  assumes listing: "repo_GetAll h (store wd) = Inr (map snd (recs (store wd)))"
    and keyed: "list_all (keyed_by_ID p) (recs (store wd))"
    and dist: "distinct (map fst (recs (store wd)))"
    and frame: "\<forall>key s. filter (\<lambda>kv. fst kv \<noteq> key) (recs (snd (repo_Delete h key s)))
                         = filter (\<lambda>kv. fst kv \<noteq> key) (recs s)"
  shows "fst (deleteClusterTasks h p clusterName wd) = None
       \<and> calls (snd (deleteClusterTasks h p clusterName wd))
           = calls wd @ map RepoDelete
               (map fst (filter (\<lambda>kv. record_belongs p clusterName (snd kv)) (recs (store wd))))
       \<and> (\<forall>kv \<in> set (recs (store wd)).
             RepoDelete (fst kv) \<in> set (drop (length (calls wd))
                                         (calls (snd (deleteClusterTasks h p clusterName wd))))
             \<longleftrightarrow> record_belongs p clusterName (snd kv))
       \<and> store (snd (deleteClusterTasks h p clusterName wd))
           = foldl (\<lambda>s key. snd (repo_Delete h key s)) (store wd)
               (map fst (filter (\<lambda>kv. record_belongs p clusterName (snd kv)) (recs (store wd))))
       \<and> filter (\<lambda>kv. fst kv \<in> fst ` set (filter (\<lambda>kv. \<not> record_belongs p clusterName (snd kv))
                                                    (recs (store wd))))
           (recs (store (snd (deleteClusterTasks h p clusterName wd))))
           = filter (\<lambda>kv. \<not> record_belongs p clusterName (snd kv)) (recs (store wd))"
proof -
  let ?recs = "recs (store wd)"
  let ?B = "\<lambda>kv. record_belongs p clusterName (snd kv)"
  let ?tasks = "filter (belongs clusterName) (decode_all p (map snd ?recs))"
  let ?ids = "map fst (filter ?B ?recs)"
  let ?others = "filter (\<lambda>kv. \<not> ?B kv) ?recs"
  let ?wd' = "snd (deleteClusterTasks h p clusterName wd)"
  have ids: "map task.ID ?tasks = ?ids"
    using keyed by (rule keyed_IDs)
  from listing keyed_decodes[OF keyed] getKubeTasks_loop_decodes[of p "map snd ?recs" clusterName "[]"]
  have get: "getKubeTasks h p clusterName (store wd) = Inr ?tasks"
    by (simp add: getKubeTasks_def)
  then have res: "deleteClusterTasks h p clusterName wd = (None, deleteClusterTasks_loop h ?tasks wd)"
    by (simp add: deleteClusterTasks_def)
  have c1: "fst (deleteClusterTasks h p clusterName wd) = None"
    using res by simp
  have c2: "calls ?wd' = calls wd @ map RepoDelete ?ids"
    using res ids by (simp add: deleteClusterTasks_loop_calls)
  have c3: "\<forall>kv \<in> set ?recs.
              RepoDelete (fst kv) \<in> set (drop (length (calls wd)) (calls ?wd')) \<longleftrightarrow> ?B kv"
  proof
    fix kv assume kv: "kv \<in> set ?recs"
    have "RepoDelete (fst kv) \<in> set (drop (length (calls wd)) (calls ?wd'))
            \<longleftrightarrow> fst kv \<in> fst ` set (filter ?B ?recs)"
      unfolding c2 by auto
    also have "\<dots> \<longleftrightarrow> ?B kv"
      using distinct_keys_disjoint[OF dist kv, of ?B] kv by auto
    finally show "RepoDelete (fst kv) \<in> set (drop (length (calls wd)) (calls ?wd')) \<longleftrightarrow> ?B kv" .
  qed
  have c4: "store ?wd' = foldl (\<lambda>s key. snd (repo_Delete h key s)) (store wd) ?ids"
    using res ids by (simp add: deleteClusterTasks_loop_store)
  have fr: "filter (\<lambda>kv. fst kv \<notin> set ?ids) (recs (store ?wd'))
              = filter (\<lambda>kv. fst kv \<notin> set ?ids) ?recs"
    using deleteClusterTasks_loop_frame[OF frame, of ?tasks wd] res ids by simp
  have disj: "\<And>kv. fst kv \<in> fst ` set ?others \<Longrightarrow> fst kv \<notin> set ?ids"
  proof -
    fix kv assume "fst kv \<in> fst ` set ?others"
    then obtain y where y: "y \<in> set ?recs" "\<not> ?B y" "fst y = fst kv" by auto
    from distinct_keys_disjoint[OF dist y(1), of ?B] y show "fst kv \<notin> set ?ids" by auto
  qed
  let ?K = "\<lambda>kv. fst kv \<in> fst ` set ?others"
  have "filter ?K (recs (store ?wd'))
          = filter ?K (filter (\<lambda>kv. fst kv \<notin> set ?ids) (recs (store ?wd')))"
    by (rule filter_absorb[symmetric]) (rule disj)
  also have "\<dots> = filter ?K (filter (\<lambda>kv. fst kv \<notin> set ?ids) ?recs)"
    using fr by simp
  also have "\<dots> = filter ?K ?recs"
    by (rule filter_absorb) (rule disj)
  also have "\<dots> = ?others"
    using dist by (rule distinct_keys_filter)
  finally have c5: "filter ?K (recs (store ?wd')) = ?others" .
  from c1 c2 c3 c4 c5 show ?thesis by blast
qed

theorem deleteClusterTasks_deletes_witness:
  "repo_GetAll mem_Handler (store (world1 [] ''do''))
     = Inr (map snd (mem_records (store (world1 [] ''do''))))
   \<and> list_all (keyed_by_ID mem_pkg) (mem_records (store (world1 [] ''do'')))
   \<and> distinct (map fst (mem_records (store (world1 [] ''do''))))
   \<and> mem_records (store (world1 [] ''do''))
       = [(''t1'', ''{t1:alpha''), (''t2'', ''{t2:beta''), (''t3'', ''{t3:alpha''), (''t4'', ''{t4'')]
   \<and> fst (deleteClusterTasks mem_Handler mem_pkg ''alpha'' (world1 [] ''do'')) = None
   \<and> calls (snd (deleteClusterTasks mem_Handler mem_pkg ''alpha'' (world1 [] ''do'')))
       = [RepoDelete ''t1'', RepoDelete ''t3'']
   \<and> filter (\<lambda>kv. fst kv \<in> {''t2'', ''t4''})
        (mem_records (store (snd (deleteClusterTasks mem_Handler mem_pkg ''alpha'' (world1 [] ''do'')))))
       = [(''t2'', ''{t2:beta''), (''t4'', ''{t4'')]"
proof -
  let ?wd = "world1 [] ''do''"
  let ?recs = "[(''t1'', ''{t1:alpha''), (''t2'', ''{t2:beta''), (''t3'', ''{t3:alpha''), (''t4'', ''{t4'')]"
  have r: "mem_records (store ?wd) = ?recs"
    by (simp add: mem_defs)
  have a: "repo_GetAll mem_Handler (store ?wd) = Inr (map snd (mem_records (store ?wd)))"
    by (simp add: mem_Handler_def)
  have b: "list_all (keyed_by_ID mem_pkg) (mem_records (store ?wd))"
    unfolding r by (simp add: mem_defs keyed_by_ID_def)
  have c: "distinct (map fst (mem_records (store ?wd)))"
    unfolding r by simp
  have d: "\<forall>key s. filter (\<lambda>kv. fst kv \<noteq> key) (mem_records (snd (repo_Delete mem_Handler key s)))
                     = filter (\<lambda>kv. fst kv \<noteq> key) (mem_records s)"
    using mem_repo_Delete_frame by blast
  have e: "filter (\<lambda>kv. record_belongs mem_pkg ''alpha'' (snd kv)) ?recs
             = [(''t1'', ''{t1:alpha''), (''t3'', ''{t3:alpha'')]"
    by (simp add: mem_defs record_belongs_def belongs_def)
  have f: "filter (\<lambda>kv. \<not> record_belongs mem_pkg ''alpha'' (snd kv)) ?recs
             = [(''t2'', ''{t2:beta''), (''t4'', ''{t4'')]"
    by (simp add: mem_defs record_belongs_def belongs_def)
  have g: "calls ?wd = []" by (simp add: world1_def)
  note T = deleteClusterTasks_deletes[where recs = mem_records, OF a b c d, of "''alpha''"]
  from T have t1: "fst (deleteClusterTasks mem_Handler mem_pkg ''alpha'' ?wd) = None" by blast
  from T have "calls (snd (deleteClusterTasks mem_Handler mem_pkg ''alpha'' ?wd))
                 = calls ?wd @ map RepoDelete
                     (map fst (filter (\<lambda>kv. record_belongs mem_pkg ''alpha'' (snd kv))
                        (mem_records (store ?wd))))"
    by blast
  then have t2: "calls (snd (deleteClusterTasks mem_Handler mem_pkg ''alpha'' ?wd))
                   = [RepoDelete ''t1'', RepoDelete ''t3'']"
    unfolding r e g by simp
  from T have "filter (\<lambda>kv. fst kv \<in> fst ` set (filter (\<lambda>kv. \<not> record_belongs mem_pkg ''alpha'' (snd kv))
                                                    (mem_records (store ?wd))))
           (mem_records (store (snd (deleteClusterTasks mem_Handler mem_pkg ''alpha'' ?wd))))
           = filter (\<lambda>kv. \<not> record_belongs mem_pkg ''alpha'' (snd kv)) (mem_records (store ?wd))"
    by blast
  then have t3: "filter (\<lambda>kv. fst kv \<in> {''t2'', ''t4''})
        (mem_records (store (snd (deleteClusterTasks mem_Handler mem_pkg ''alpha'' ?wd))))
       = [(''t2'', ''{t2:beta''), (''t4'', ''{t4'')]"
    unfolding r f by simp
  from a b c r t1 t2 t3 show ?thesis by blast
qed

section \<open>The reactions to completion\<close>

text \<open>
  C4: in the reaction of \<open>deleteKube\<close>, a completion that carries an error leaves the
  world as it is (neither the cluster record nor a task record is deleted). With a nil
  error the delete of the cluster record is issued first; when it fails nothing else is
  issued, so no task record is deleted; only when it succeeds does the reaction go on to
  \<open>deleteClusterTasks\<close>, whose deletes all come after the delete of the cluster record.
\<close>

theorem deleteKube_done_order:
  "(err \<noteq> None \<longrightarrow> deleteKube_done h p kname err wd = wd)
   \<and> (err = None \<longrightarrow>
        (\<exists>ids. calls (deleteKube_done h p kname err wd)
                 = calls wd @ SvcDelete kname # map RepoDelete ids
             \<and> (fst (svc_Delete h kname (store wd)) \<noteq> None \<longrightarrow>
                   ids = [] \<and>
                   store (deleteKube_done h p kname err wd) = snd (svc_Delete h kname (store wd))))
        \<and> (fst (svc_Delete h kname (store wd)) = None \<longrightarrow>
              deleteKube_done h p kname err wd
                = snd (deleteClusterTasks h p kname
                         (issue (SvcDelete kname) (snd (svc_Delete h kname (store wd))) wd))))"
proof (cases err)
  case (Some e)
  then show ?thesis by (simp add: deleteKube_done_def)
next
  case None
  obtain r s' where sd: "svc_Delete h kname (store wd) = (r, s')"
    by (cases "svc_Delete h kname (store wd)")
  show ?thesis
  proof (cases r)
    case (Some e')
    with None sd have "calls (deleteKube_done h p kname err wd)
                         = calls wd @ SvcDelete kname # map RepoDelete []"
      and "store (deleteKube_done h p kname err wd) = s'"
      by (simp_all add: deleteKube_done_def do_svc_Delete_def issue_def logf_def)
    with None sd Some show ?thesis by auto
  next
    case rn: None
    let ?wd' = "issue (SvcDelete kname) s' wd"
    from None sd rn have eq: "deleteKube_done h p kname err wd
                                = snd (deleteClusterTasks h p kname ?wd')"
      by (simp add: deleteKube_done_def do_svc_Delete_def)
    obtain ids where "calls (snd (deleteClusterTasks h p kname ?wd'))
                        = calls ?wd' @ map RepoDelete ids"
      using deleteClusterTasks_calls by blast
    with eq have "calls (deleteKube_done h p kname err wd)
                    = calls wd @ SvcDelete kname # map RepoDelete ids"
      by (simp add: issue_def)
    with None sd rn eq show ?thesis by auto
  qed
qed

theorem deleteKube_done_order_witness:
  "deleteKube_done mem_Handler mem_pkg ''alpha'' (Some (ErrOther ''quota exceeded'')) (world1 [] ''do'')
     = world1 [] ''do''
   \<and> fst (svc_Delete mem_Handler ''gamma'' (store (world1 [] ''do''))) \<noteq> None
   \<and> calls (deleteKube_done mem_Handler mem_pkg ''gamma'' None (world1 [] ''do'')) = [SvcDelete ''gamma'']
   \<and> fst (svc_Delete mem_Handler ''alpha'' (store (world1 [] ''do''))) = None
   \<and> calls (deleteKube_done mem_Handler mem_pkg ''alpha'' None (world1 [] ''do''))
       = [SvcDelete ''alpha'', RepoDelete ''t1'', RepoDelete ''t3'']"
proof -
  have a: "fst (svc_Delete mem_Handler ''gamma'' (store (world1 [] ''do''))) \<noteq> None"
    by (simp add: mem_defs)
  have b: "fst (svc_Delete mem_Handler ''alpha'' (store (world1 [] ''do''))) = None"
    by (simp add: mem_defs)
  have c: "calls (world1 [] ''do'') = []"
    by (simp add: world1_def)
  have d: "calls (snd (deleteClusterTasks mem_Handler mem_pkg ''alpha''
             (issue (SvcDelete ''alpha'') (snd (svc_Delete mem_Handler ''alpha'' (store (world1 [] ''do''))))
                (world1 [] ''do''))))
           = [SvcDelete ''alpha'', RepoDelete ''t1'', RepoDelete ''t3'']"
    by (simp add: mem_defs deleteClusterTasks_def getKubeTasks_def issue_def do_repo_Delete_def
          AList.delete_eq)
  from deleteKube_done_order[of "Some (ErrOther ''quota exceeded'')" mem_Handler mem_pkg "''alpha''" "world1 [] ''do''"]
       deleteKube_done_order[of None mem_Handler mem_pkg "''gamma''" "world1 [] ''do''"]
       deleteKube_done_order[of None mem_Handler mem_pkg "''alpha''" "world1 [] ''do''"]
       a b c d
  show ?thesis by auto
qed

text \<open>
  C3 at a concrete input: the completion of the task deleting node \<open>n1\<close> of cluster
  \<open>alpha\<close> carries the error \<open>quota exceeded\<close>. The reaction of \<open>deleteNode\<close> logs
  the error and goes on: it removes \<open>n1\<close> from the node set of the cluster object and
  saves the cluster without it.
\<close>

theorem deleteNode_done_on_error:
  "map_of (Nodes (kube1 ''do'')) ''n1'' = Some \<lparr>node.Name = ''n1''\<rparr>
   \<and> Nodes (fst (deleteNode_done mem_Handler (kube1 ''do'') ''n1'' ''alpha''
                    (Some (ErrOther ''quota exceeded'')) (world1 [] ''do'')))
       = [(''n2'', \<lparr>node.Name = ''n2''\<rparr>)]
   \<and> calls (snd (deleteNode_done mem_Handler (kube1 ''do'') ''n1'' ''alpha''
                    (Some (ErrOther ''quota exceeded'')) (world1 [] ''do'')))
       = [SvcCreate ((kube1 ''do'')\<lparr>Nodes := [(''n2'', \<lparr>node.Name = ''n2''\<rparr>)]\<rparr>)]
   \<and> map (Nodes \<circ> snd) (mem_kubes (store (snd (deleteNode_done mem_Handler (kube1 ''do'') ''n1'' ''alpha''
                    (Some (ErrOther ''quota exceeded'')) (world1 [] ''do'')))))
       = [[(''n2'', \<lparr>node.Name = ''n2''\<rparr>)]]"
  by (simp add: mem_defs deleteNode_done_def do_svc_Create_def issue_def logf_def AList.delete_eq Let_def)



section \<open>The responses of the handlers\<close>

lemmas Status_defs = StatusBadRequest_def StatusNotFound_def StatusMethodNotAllowed_def
  StatusInternalServerError_def StatusAccepted_def

text \<open>
  C9: when the request names a cluster and \<open>getKubeTasks\<close> succeeds with no task for
  it, \<open>getTasks\<close> answers \<open>http.Error(w, "", StatusNotFound)\<close>: status 404, and no
  JSON list is encoded.
\<close>

theorem getTasks_no_tasks:
  assumes "vars ''kname'' = Some kname" and "getKubeTasks h p kname s = Inr []"
  shows "getTasks h p vars s = http_Error (Str []) StatusNotFound
       \<and> status (getTasks h p vars s) = Some 404
       \<and> (\<forall>j. Encoded j \<notin> set (getTasks h p vars s))"
  using assms by (simp add: getTasks_def getTasks_respond_def http_Error_def Status_defs)

theorem getTasks_no_tasks_witness:
  "[''kname'' \<mapsto> ''gamma''] ''kname'' = Some ''gamma''
   \<and> getKubeTasks mem_Handler mem_pkg ''gamma'' (mem1 [] ''do'') = Inr []
   \<and> getTasks mem_Handler mem_pkg [''kname'' \<mapsto> ''gamma''] (mem1 [] ''do'')
       = [WriteHeader 404, Write (Str [])]"
proof -
  have a: "[''kname'' \<mapsto> ''gamma''] ''kname'' = Some ''gamma''" by simp
  have b: "getKubeTasks mem_Handler mem_pkg ''gamma'' (mem1 [] ''do'') = Inr []"
    by (simp add: mem_defs getKubeTasks_def)
  from getTasks_no_tasks[where vars = "[''kname'' \<mapsto> ''gamma'']" and kname = "''gamma''"
         and h = mem_Handler and p = mem_pkg and s = "mem1 [] ''do''"] a b
  show ?thesis
    by (simp add: http_Error_def Status_defs)
qed

text \<open>
  C8: when the cluster is found and the node named by the request is in its \<open>Masters\<close>,
  \<open>deleteNode\<close> answers 405 with the message \<open>delete master node not allowed\<close>; the
  world is returned as it was (no task record is put, no task is run, nothing is saved
  or deleted) and no goroutine is started.
\<close>

theorem deleteNode_master:
  assumes "svc_Get h (mux_Var vars ''kname'') (store wd) = Inr k"
    and "map_of (Masters k) (mux_Var vars ''nodename'') \<noteq> None"
  shows "deleteNode h p vars wd
           = (http_Error (Str ''delete master node not allowed'') StatusMethodNotAllowed, wd, None)
       \<and> status (fst (deleteNode h p vars wd)) = Some 405"
  using assms by (simp add: deleteNode_def Let_def http_Error_def Status_defs)

theorem deleteNode_master_witness:
  "svc_Get mem_Handler (mux_Var [''kname'' \<mapsto> ''alpha'', ''nodename'' \<mapsto> ''m1''] ''kname'')
       (store (world1 [] ''do'')) = Inr (kube1 ''do'')
   \<and> map_of (Masters (kube1 ''do'')) (mux_Var [''kname'' \<mapsto> ''alpha'', ''nodename'' \<mapsto> ''m1''] ''nodename'')
       \<noteq> None
   \<and> deleteNode mem_Handler mem_pkg [''kname'' \<mapsto> ''alpha'', ''nodename'' \<mapsto> ''m1''] (world1 [] ''do'')
       = ([WriteHeader 405, Write (Str ''delete master node not allowed'')], world1 [] ''do'', None)"
proof -
  let ?vars = "[''kname'' \<mapsto> ''alpha'', ''nodename'' \<mapsto> ''m1'']"
  have a: "svc_Get mem_Handler (mux_Var ?vars ''kname'') (store (world1 [] ''do'')) = Inr (kube1 ''do'')"
    by (simp add: mem_defs mux_Var_def)
  have b: "map_of (Masters (kube1 ''do'')) (mux_Var ?vars ''nodename'') \<noteq> None"
    by (simp add: mem_defs mux_Var_def)
  from deleteNode_master[OF a b, of mem_pkg] a b show ?thesis
    by (simp add: http_Error_def Status_defs)
qed

text \<open>
  C6: for every \<open>addNode\<close> request. When the handler reaches \<open>ProvisionNodes\<close> (the
  cluster and its account are found, the body decodes, the cluster has a master and the
  credentials are filled in) and the call returns an error, the handler answers
  \<open>http.Error\<close> with the text of the error, status 404 when the error is NotFound and 500
  otherwise, and the response holds neither the 202 header nor an encoded list; when the
  call returns task identities, the response is the 202 header followed by the encoded
  list (or by the error of the encoder). Conversely, whatever the request, a response that
  holds the 202 header or an encoded value comes from a call of \<open>ProvisionNodes\<close> that
  returned task identities and no error, and the only value it can hold is the list of
  these identities.
\<close>

theorem addNode_provision_result:
  "(svc_Get h (mux_Var vars ''kname'') (store wd) = Inr k
      \<and> DecodeNodeProfiles p reqBody = Inr nps
      \<and> accountService_Get h (AccountName k) (store wd) = Inr acc
      \<and> length (Masters k) \<noteq> 0
      \<and> FillCloudAccountCredentials p acc (addNode_config p acc k) = Inr cfg \<longrightarrow>
      (\<forall>err s'. nodeProvisioner_ProvisionNodes h nps k cfg (store wd) = (Inl err, s') \<longrightarrow>
          addNode h p vars reqBody wd
            = (http_Error (ErrorText err)
                 (if IsNotFound err then StatusNotFound else StatusInternalServerError),
               issue (ProvisionNodes nps k cfg) s' wd)
          \<and> status (fst (addNode h p vars reqBody wd)) = Some (if IsNotFound err then 404 else 500)
          \<and> (\<forall>j. Encoded j \<notin> set (fst (addNode h p vars reqBody wd)))
          \<and> WriteHeader StatusAccepted \<notin> set (fst (addNode h p vars reqBody wd)))
      \<and> (\<forall>tasks s'. nodeProvisioner_ProvisionNodes h nps k cfg (store wd) = (Inr tasks, s') \<longrightarrow>
          fst (addNode h p vars reqBody wd)
            = WriteHeader StatusAccepted #
                (case Encode p (JStrings tasks) of
                   None \<Rightarrow> [Encoded (JStrings tasks)]
                 | Some e \<Rightarrow> http_Error (ErrorText e) StatusInternalServerError)))
   \<and> ((WriteHeader StatusAccepted \<in> set (fst (addNode h p vars reqBody wd))
        \<or> (\<exists>j. Encoded j \<in> set (fst (addNode h p vars reqBody wd)))) \<longrightarrow>
       (\<exists>k nps acc cfg tasks s'.
          svc_Get h (mux_Var vars ''kname'') (store wd) = Inr k
          \<and> DecodeNodeProfiles p reqBody = Inr nps
          \<and> accountService_Get h (AccountName k) (store wd) = Inr acc
          \<and> length (Masters k) \<noteq> 0
          \<and> FillCloudAccountCredentials p acc (addNode_config p acc k) = Inr cfg
          \<and> nodeProvisioner_ProvisionNodes h nps k cfg (store wd) = (Inr tasks, s')
          \<and> (\<forall>j. Encoded j \<in> set (fst (addNode h p vars reqBody wd)) \<longrightarrow> j = JStrings tasks)))"
proof (intro conjI impI allI)
  assume path: "svc_Get h (mux_Var vars ''kname'') (store wd) = Inr k
      \<and> DecodeNodeProfiles p reqBody = Inr nps
      \<and> accountService_Get h (AccountName k) (store wd) = Inr acc
      \<and> length (Masters k) \<noteq> 0
      \<and> FillCloudAccountCredentials p acc (addNode_config p acc k) = Inr cfg"
  {
    fix err s'
    assume e: "nodeProvisioner_ProvisionNodes h nps k cfg (store wd) = (Inl err, s')"
    from path e show r: "addNode h p vars reqBody wd
            = (http_Error (ErrorText err)
                 (if IsNotFound err then StatusNotFound else StatusInternalServerError),
               issue (ProvisionNodes nps k cfg) s' wd)"
      by (simp add: addNode_def addNode_config_def Let_def do_ProvisionNodes_def)
    show "status (fst (addNode h p vars reqBody wd)) = Some (if IsNotFound err then 404 else 500)"
      unfolding r by (simp add: http_Error_def Status_defs)
    fix j
    show "Encoded j \<notin> set (fst (addNode h p vars reqBody wd))"
      unfolding r by (simp add: http_Error_def)
  next
    fix err s'
    assume e: "nodeProvisioner_ProvisionNodes h nps k cfg (store wd) = (Inl err, s')"
    from path e have r: "addNode h p vars reqBody wd
            = (http_Error (ErrorText err)
                 (if IsNotFound err then StatusNotFound else StatusInternalServerError),
               issue (ProvisionNodes nps k cfg) s' wd)"
      by (simp add: addNode_def addNode_config_def Let_def do_ProvisionNodes_def)
    show "WriteHeader StatusAccepted \<notin> set (fst (addNode h p vars reqBody wd))"
      unfolding r by (simp add: http_Error_def Status_defs)
  next
    fix tasks s'
    assume e: "nodeProvisioner_ProvisionNodes h nps k cfg (store wd) = (Inr tasks, s')"
    from path e show "fst (addNode h p vars reqBody wd)
            = WriteHeader StatusAccepted #
                (case Encode p (JStrings tasks) of
                   None \<Rightarrow> [Encoded (JStrings tasks)]
                 | Some e \<Rightarrow> http_Error (ErrorText e) StatusInternalServerError)"
      by (simp add: addNode_def addNode_config_def Let_def do_ProvisionNodes_def
            split: option.splits)
  }
next
  assume "WriteHeader StatusAccepted \<in> set (fst (addNode h p vars reqBody wd))
        \<or> (\<exists>j. Encoded j \<in> set (fst (addNode h p vars reqBody wd)))"
  then show "\<exists>k nps acc cfg tasks s'.
          svc_Get h (mux_Var vars ''kname'') (store wd) = Inr k
          \<and> DecodeNodeProfiles p reqBody = Inr nps
          \<and> accountService_Get h (AccountName k) (store wd) = Inr acc
          \<and> length (Masters k) \<noteq> 0
          \<and> FillCloudAccountCredentials p acc (addNode_config p acc k) = Inr cfg
          \<and> nodeProvisioner_ProvisionNodes h nps k cfg (store wd) = (Inr tasks, s')
          \<and> (\<forall>j. Encoded j \<in> set (fst (addNode h p vars reqBody wd)) \<longrightarrow> j = JStrings tasks)"
    unfolding addNode_def addNode_config_def Let_def do_ProvisionNodes_def issue_def logf_def
      http_Error_def http_NotFound_def Status_defs
    by (auto split: sum.splits prod.splits option.splits if_splits)
qed

theorem addNode_provision_result_witness:
  "svc_Get mem_Handler (mux_Var [''kname'' \<mapsto> ''alpha''] ''kname'') (store (world1 [] ''do''))
     = Inr (kube1 ''do'')
   \<and> DecodeNodeProfiles mem_pkg ''[]'' = Inr []
   \<and> DecodeNodeProfiles mem_pkg ''[{}]'' = Inr [[]]
   \<and> DecodeNodeProfiles mem_pkg ''[{size:s}]'' = Inr [[(''size'', ''s'')]]
   \<and> accountService_Get mem_Handler (AccountName (kube1 ''do'')) (store (world1 [] ''do''))
       = Inr \<lparr>CloudAccount.Name = ''do'', Provider = ''digitalocean''\<rparr>
   \<and> length (Masters (kube1 ''do'')) \<noteq> 0
   \<and> FillCloudAccountCredentials mem_pkg \<lparr>CloudAccount.Name = ''do'', Provider = ''digitalocean''\<rparr>
        (addNode_config mem_pkg \<lparr>CloudAccount.Name = ''do'', Provider = ''digitalocean''\<rparr> (kube1 ''do''))
       = Inr cfg1
   \<and> nodeProvisioner_ProvisionNodes mem_Handler [] (kube1 ''do'') cfg1 (store (world1 [] ''do''))
       = (Inl (ErrOther ''no profiles''), store (world1 [] ''do''))
   \<and> fst (addNode mem_Handler mem_pkg [''kname'' \<mapsto> ''alpha''] ''[]'' (world1 [] ''do''))
       = [WriteHeader 500, Write (ErrorText (ErrOther ''no profiles''))]
   \<and> nodeProvisioner_ProvisionNodes mem_Handler [[]] (kube1 ''do'') cfg1 (store (world1 [] ''do''))
       = (Inl (Wrap ErrNotFound ''provision node''), store (world1 [] ''do''))
   \<and> fst (addNode mem_Handler mem_pkg [''kname'' \<mapsto> ''alpha''] ''[{}]'' (world1 [] ''do''))
       = [WriteHeader 404, Write (ErrorText (Wrap ErrNotFound ''provision node''))]
   \<and> nodeProvisioner_ProvisionNodes mem_Handler [[(''size'', ''s'')]] (kube1 ''do'') cfg1
        (store (world1 [] ''do''))
       = (Inr [''task-s''], store (world1 [] ''do''))
   \<and> fst (addNode mem_Handler mem_pkg [''kname'' \<mapsto> ''alpha''] ''[{size:s}]'' (world1 [] ''do''))
       = [WriteHeader 202, Encoded (JStrings [''task-s''])]"
proof -
  let ?vars = "[''kname'' \<mapsto> ''alpha'']"
  let ?wd = "world1 [] ''do''"
  let ?acc = "\<lparr>CloudAccount.Name = ''do'', Provider = ''digitalocean''\<rparr>"
  let ?k = "kube1 ''do''"
  have g: "svc_Get mem_Handler (mux_Var ?vars ''kname'') (store ?wd) = Inr ?k"
    by (simp add: mem_defs mux_Var_def)
  have d0: "DecodeNodeProfiles mem_pkg ''[]'' = Inr []"
    and d1: "DecodeNodeProfiles mem_pkg ''[{}]'' = Inr [[]]"
    and d2: "DecodeNodeProfiles mem_pkg ''[{size:s}]'' = Inr [[(''size'', ''s'')]]"
    by (simp_all add: mem_pkg_def)
  have a: "accountService_Get mem_Handler (AccountName ?k) (store ?wd) = Inr ?acc"
    by (simp add: mem_defs)
  have m: "length (Masters ?k) \<noteq> 0"
    by (simp add: kube1_def)
  have f: "FillCloudAccountCredentials mem_pkg ?acc (addNode_config mem_pkg ?acc ?k) = Inr cfg1"
    by (simp add: mem_pkg_def addNode_config_def kube1_def cfg1_def)
  have p0: "nodeProvisioner_ProvisionNodes mem_Handler [] ?k cfg1 (store ?wd)
              = (Inl (ErrOther ''no profiles''), store ?wd)"
    and p1: "nodeProvisioner_ProvisionNodes mem_Handler [[]] ?k cfg1 (store ?wd)
              = (Inl (Wrap ErrNotFound ''provision node''), store ?wd)"
    and p2: "nodeProvisioner_ProvisionNodes mem_Handler [[(''size'', ''s'')]] ?k cfg1 (store ?wd)
              = (Inr [''task-s''], store ?wd)"
    by (simp_all add: mem_Handler_def)
  have e: "Encode mem_pkg (JStrings [''task-s'']) = None"
    by (simp add: mem_pkg_def)
  note T0 = addNode_provision_result[of mem_Handler ?vars ?wd ?k mem_pkg "''[]''" "[]" ?acc cfg1,
              THEN conjunct1, THEN mp, OF conjI[OF g conjI[OF d0 conjI[OF a conjI[OF m f]]]]]
  note E0 = T0[THEN conjunct1, THEN spec, THEN spec, THEN mp, OF p0, THEN conjunct1]
  have r0: "fst (addNode mem_Handler mem_pkg ?vars ''[]'' ?wd)
              = [WriteHeader 500, Write (ErrorText (ErrOther ''no profiles''))]"
    unfolding E0 by (simp add: http_Error_def Status_defs)
  note T1 = addNode_provision_result[of mem_Handler ?vars ?wd ?k mem_pkg "''[{}]''" "[[]]" ?acc cfg1,
              THEN conjunct1, THEN mp, OF conjI[OF g conjI[OF d1 conjI[OF a conjI[OF m f]]]]]
  note E1 = T1[THEN conjunct1, THEN spec, THEN spec, THEN mp, OF p1, THEN conjunct1]
  have r1: "fst (addNode mem_Handler mem_pkg ?vars ''[{}]'' ?wd)
              = [WriteHeader 404, Write (ErrorText (Wrap ErrNotFound ''provision node''))]"
    unfolding E1 by (simp add: http_Error_def Status_defs)
  note T2 = addNode_provision_result[of mem_Handler ?vars ?wd ?k mem_pkg "''[{size:s}]''"
              "[[(''size'', ''s'')]]" ?acc cfg1,
              THEN conjunct1, THEN mp, OF conjI[OF g conjI[OF d2 conjI[OF a conjI[OF m f]]]]]
  note E2 = T2[THEN conjunct2, THEN spec, THEN spec, THEN mp, OF p2]
  have r2: "fst (addNode mem_Handler mem_pkg ?vars ''[{size:s}]'' ?wd)
              = [WriteHeader 202, Encoded (JStrings [''task-s''])]"
    unfolding E2 by (simp add: e Status_defs)
  from g d0 d1 d2 a m f p0 p1 p2 r0 r1 r2 show ?thesis by (intro conjI)
qed

text \<open>
  C5, as stated, at a concrete request: cluster \<open>alpha\<close> belongs to the account \<open>aws\<close>,
  whose provider has no entry in the workflow map, and the request asks to delete the
  master node \<open>m1\<close>. \<open>deleteNode\<close> answers 405 before it reads the account: no lookup in
  the workflow map, no task creation, and not 404.
\<close>

theorem deleteNode_unmapped_master_counterexample:
  "svc_Get mem_Handler ''alpha'' (store (world1 [] ''aws'')) = Inr (kube1 ''aws'')
   \<and> accountService_Get mem_Handler (AccountName (kube1 ''aws'')) (store (world1 [] ''aws''))
       = Inr \<lparr>CloudAccount.Name = ''aws'', Provider = ''aws''\<rparr>
   \<and> workflowMap mem_Handler ''aws'' = None
   \<and> deleteNode mem_Handler mem_pkg [''kname'' \<mapsto> ''alpha'', ''nodename'' \<mapsto> ''m1'']
         (world1 [] ''aws'')
       = ([WriteHeader 405, Write (Str ''delete master node not allowed'')], world1 [] ''aws'', None)"
  by (simp add: mem_defs deleteNode_def Let_def mux_Var_def NewHandler_workflowMap_def
        http_Error_def Status_defs)

text \<open>
  C5, amended: let the cluster and its cloud account be found, the provider of the
  account have no entry in the workflow map of the handler, and the empty workflow kind
  be unregistered. Then indexing the map gives the zero workflow set (no panic), task
  creation for its \<open>DeleteCluster\<close> and \<open>DeleteNode\<close> kinds reports NotFound without
  touching the world, \<open>deleteKube\<close> answers \<open>http.NotFound\<close> (status 404), and so does
  \<open>deleteNode\<close> for every node that is not a master; the world is unchanged and no
  goroutine is started.
\<close>

theorem unmapped_provider_not_found:
  assumes "workflowMap h (CloudAccount.Provider acc) = None"
    and "GetWorkflow p [] = None"
    and "svc_Get h (mux_Var vars ''kname'') (store wd) = Inr k"
    and "accountService_Get h (AccountName k) (store wd) = Inr acc"
  shows "index_workflowMap (workflowMap h) (CloudAccount.Provider acc) = zero_WorkflowSet
       \<and> NewTask h p (DeleteCluster (index_workflowMap (workflowMap h) (CloudAccount.Provider acc))) wd
           = (Inl ErrNotFound, wd)
       \<and> NewTask h p (DeleteNode (index_workflowMap (workflowMap h) (CloudAccount.Provider acc))) wd
           = (Inl ErrNotFound, wd)
       \<and> deleteKube h p vars wd = (http_NotFound, wd, None)
       \<and> (map_of (Masters k) (mux_Var vars ''nodename'') = None \<longrightarrow>
            deleteNode h p vars wd = (http_NotFound, wd, None))
       \<and> status http_NotFound = Some 404"
proof -
  have z: "index_workflowMap (workflowMap h) (CloudAccount.Provider acc) = zero_WorkflowSet"
    using assms(1) by (simp add: index_workflowMap_def)
  have n: "NewTask h p [] wd = (Inl ErrNotFound, wd)"
    using assms(2) by (simp add: NewTask_def)
  have dk: "deleteKube h p vars wd = (http_NotFound, wd, None)"
    using assms(3,4) z n by (simp add: deleteKube_def Let_def zero_WorkflowSet_def)
  have dn: "map_of (Masters k) (mux_Var vars ''nodename'') = None \<Longrightarrow>
            deleteNode h p vars wd = (http_NotFound, wd, None)"
    using assms(3,4) z n by (simp add: deleteNode_def Let_def zero_WorkflowSet_def)
  have s: "status http_NotFound = Some 404"
    by (simp add: http_NotFound_def http_Error_def Status_defs)
  from z n dk dn s show ?thesis by (simp add: zero_WorkflowSet_def)
qed

theorem unmapped_provider_not_found_witness:
  "workflowMap mem_Handler (CloudAccount.Provider \<lparr>CloudAccount.Name = ''aws'', Provider = ''aws''\<rparr>) = None
   \<and> GetWorkflow mem_pkg [] = None
   \<and> svc_Get mem_Handler (mux_Var [''kname'' \<mapsto> ''alpha'', ''nodename'' \<mapsto> ''n1''] ''kname'')
        (store (world1 [] ''aws'')) = Inr (kube1 ''aws'')
   \<and> accountService_Get mem_Handler (AccountName (kube1 ''aws'')) (store (world1 [] ''aws''))
       = Inr \<lparr>CloudAccount.Name = ''aws'', Provider = ''aws''\<rparr>
   \<and> map_of (Masters (kube1 ''aws'')) (mux_Var [''kname'' \<mapsto> ''alpha'', ''nodename'' \<mapsto> ''n1''] ''nodename'') = None
   \<and> deleteKube mem_Handler mem_pkg [''kname'' \<mapsto> ''alpha'', ''nodename'' \<mapsto> ''n1''] (world1 [] ''aws'')
       = ([WriteHeader 404, Write (Str ''404 page not found'')], world1 [] ''aws'', None)
   \<and> deleteNode mem_Handler mem_pkg [''kname'' \<mapsto> ''alpha'', ''nodename'' \<mapsto> ''n1''] (world1 [] ''aws'')
       = ([WriteHeader 404, Write (Str ''404 page not found'')], world1 [] ''aws'', None)"
proof -
  let ?vars = "[''kname'' \<mapsto> ''alpha'', ''nodename'' \<mapsto> ''n1'']"
  let ?acc = "\<lparr>CloudAccount.Name = ''aws'', Provider = ''aws''\<rparr>"
  have a: "workflowMap mem_Handler (CloudAccount.Provider ?acc) = None"
    by (simp add: mem_defs NewHandler_workflowMap_def)
  have b: "GetWorkflow mem_pkg [] = None"
    by (simp add: mem_defs)
  have c: "svc_Get mem_Handler (mux_Var ?vars ''kname'') (store (world1 [] ''aws'')) = Inr (kube1 ''aws'')"
    by (simp add: mem_defs mux_Var_def)
  have d: "accountService_Get mem_Handler (AccountName (kube1 ''aws'')) (store (world1 [] ''aws'')) = Inr ?acc"
    by (simp add: mem_defs)
  have e: "map_of (Masters (kube1 ''aws'')) (mux_Var ?vars ''nodename'') = None"
    by (simp add: mem_defs mux_Var_def)
  from unmapped_provider_not_found[OF a b c d] a b c d e show ?thesis
    by (simp add: http_NotFound_def http_Error_def Status_defs)
qed

end
